theory Spec2Isabelle
  imports Complex_Main "HOL-Library.AList" "HOL-Library.Multiset"
begin

section \<open>JavaScript strings\<close>

text \<open>
  A JavaScript string is modelled as a \<^typ>\<open>string\<close>; a \<^typ>\<open>char\<close> stands for a code
  unit below 256, so the model covers text in the Latin-1 range (the sample files of the
  dashboard are ASCII).  The built-ins are written out for that range.
\<close>

definition js_whitespace :: "char \<Rightarrow> bool" where
  \<comment> \<open>WhiteSpace and LineTerminator of ECMAScript below 256: TAB, LF, VT, FF, CR, SP, NBSP.\<close>
  "js_whitespace c \<longleftrightarrow>
     c \<in> set [CHR 0x09, CHR 0x0A, CHR 0x0B, CHR 0x0C, CHR 0x0D, CHR 0x20, CHR 0xA0]"

definition js_trim :: "string \<Rightarrow> string" where
  \<comment> \<open>\<^verbatim>\<open>s.trim()\<close>\<close>
  "js_trim s = rev (dropWhile js_whitespace (rev (dropWhile js_whitespace s)))"

fun js_split :: "char \<Rightarrow> string \<Rightarrow> string list" where
  \<comment> \<open>\<^verbatim>\<open>s.split(sep)\<close> for a separator of one character; \<^verbatim>\<open>"".split(",")\<close> is \<^verbatim>\<open>[""]\<close>\<close>
  "js_split sep [] = [[]]"
| "js_split sep (c # cs) =
     (if c = sep then [] # js_split sep cs
      else (case js_split sep cs of
              [] \<Rightarrow> [[c]]
            | w # ws \<Rightarrow> (c # w) # ws))"

definition strip_quotes :: "string \<Rightarrow> string" where
  \<comment> \<open>\<^verbatim>\<open>s.replace(/"/g, "")\<close>\<close>
  "strip_quotes s = filter (\<lambda>c. c \<noteq> CHR 0x22) s"

definition lower_char :: "char \<Rightarrow> char" where
  \<comment> \<open>A-Z and the Latin-1 capitals (0xC0-0xDE without the multiplication sign 0xD7) move up by 32\<close>
  "lower_char c =
     (let n = (of_char c :: nat)
      in if (65 \<le> n \<and> n \<le> 90) \<or> (192 \<le> n \<and> n \<le> 222 \<and> n \<noteq> 215)
         then char_of (n + 32) else c)"

definition toLowerCase :: "string \<Rightarrow> string" where
  "toLowerCase s = map lower_char s"

fun starts_with :: "string \<Rightarrow> string \<Rightarrow> bool" where
  "starts_with s [] = True"
| "starts_with [] (p # ps) = False"
| "starts_with (c # cs) (p # ps) = (c = p \<and> starts_with cs ps)"

fun js_includes :: "string \<Rightarrow> string \<Rightarrow> bool" where
  \<comment> \<open>\<^verbatim>\<open>s.includes(p)\<close>: \<open>p\<close> occurs in \<open>s\<close> as a contiguous substring\<close>
  "js_includes [] p = (p = [])"
| "js_includes (c # cs) p = (starts_with (c # cs) p \<or> js_includes cs p)"


section \<open>Objects as records of a data row\<close>

text \<open>
  A row object is the list of its own properties in creation order.  A property read gives
  \<open>None\<close> for \<^verbatim>\<open>undefined\<close>.  Every value the parser stores is a string, so
  \<^verbatim>\<open>toString()\<close> on a value is the identity.
\<close>

type_synonym obj = "(string \<times> string) list"

definition obj_set :: "obj \<Rightarrow> string \<Rightarrow> string \<Rightarrow> obj" where
  \<comment> \<open>\<^verbatim>\<open>obj[key] = value\<close> on an object created by \<^verbatim>\<open>{}\<close>: an existing property keeps its
      place, a new one goes last; assigning a string to \<^verbatim>\<open>__proto__\<close> runs the inherited
      setter, which ignores a value that is not an object, and creates no property\<close>
  "obj_set obj key v = (if key = ''__proto__'' then obj else AList.update key v obj)"

definition obj_get :: "obj \<Rightarrow> string \<Rightarrow> string option" where
  \<comment> \<open>\<^verbatim>\<open>obj[key]\<close> for a key that \<^verbatim>\<open>Object.prototype\<close> does not define\<close>
  "obj_get obj key = map_of obj key"

definition truthy :: "string option \<Rightarrow> bool" where
  \<comment> \<open>a string is truthy unless empty; \<^verbatim>\<open>undefined\<close> is falsy\<close>
  "truthy x = (case x of None \<Rightarrow> False | Some s \<Rightarrow> s \<noteq> [])"

definition js_or :: "string option \<Rightarrow> string option \<Rightarrow> string option" where
  \<comment> \<open>\<^verbatim>\<open>a || b\<close>\<close>
  "js_or a b = (if truthy a then a else b)"

definition or_default :: "string option \<Rightarrow> string \<Rightarrow> string" where
  \<comment> \<open>\<^verbatim>\<open>a || "literal"\<close>\<close>
  "or_default a d = (case a of None \<Rightarrow> d | Some s \<Rightarrow> if s \<noteq> [] then s else d)"

definition array_get :: "'a list \<Rightarrow> nat \<Rightarrow> 'a option" where
  \<comment> \<open>\<^verbatim>\<open>xs[i]\<close>: \<^verbatim>\<open>undefined\<close> out of range\<close>
  "array_get xs i = (if i < length xs then Some (xs ! i) else None)"


section \<open>The CSV parser (file-upload component, \<^verbatim>\<open>parseCSV\<close>)\<close>

definition csv_lines :: "string \<Rightarrow> string list" where
  \<comment> \<open>\<^verbatim>\<open>text.split("\n").filter((line) => line.trim())\<close>\<close>
  "csv_lines text = filter (\<lambda>line. js_trim line \<noteq> []) (js_split CHR 0x0A text)"

definition csv_cells :: "string \<Rightarrow> string list" where
  \<comment> \<open>\<^verbatim>\<open>line.split(",").map((value) => value.trim().replace(/"/g, ""))\<close>\<close>
  "csv_cells line = map (\<lambda>v. strip_quotes (js_trim v)) (js_split CHR '','' line)"

definition row_record :: "string list \<Rightarrow> string list \<Rightarrow> obj" where
  \<comment> \<open>\<^verbatim>\<open>headers.reduce((obj, header, index) => { obj[header] = values[index] || ""; return obj; }, {})\<close>\<close>
  "row_record headers vals =
     foldl (\<lambda>obj (header, index). obj_set obj header (or_default (array_get vals index) []))
       [] (zip headers [0..<length headers])"

definition parseCSV :: "string \<Rightarrow> obj list" where
  "parseCSV text =
     (let lines = csv_lines text
      in if length lines = 0 then []
         else let headers = csv_cells (lines ! 0);
                  data = map (\<lambda>line. row_record headers (csv_cells line)) (drop 1 lines)
              in data)"

text \<open>Names for the parts of a parsed text that the statements below talk about.\<close>

definition csv_headers :: "string \<Rightarrow> string list" where
  "csv_headers text = csv_cells (csv_lines text ! 0)"




definition own_keys :: "obj \<Rightarrow> string set" where
  "own_keys obj = fst ` set obj"



section \<open>JavaScript numbers\<close>

text \<open>
  A Number is an IEEE 754 binary64 value.  The finite ones are carried by the rational
  they denote; every arithmetic result is the exact result rounded to the nearest
  binary64 value, ties to the even significand, as the language prescribes.  The two
  zeros are one value here: the programs below divide only by lengths and counters
  (never a negative zero) and print or compare their results in ways that do not tell
  the zeros apart.
\<close>

datatype jsnum = Num rat | PosInfinity | NegInfinity | NaN

definition pow2 :: "int \<Rightarrow> rat" where
  "pow2 k = (if 0 \<le> k then 2 ^ nat k else 1 / 2 ^ nat (- k))"

definition pow10 :: "int \<Rightarrow> rat" where
  "pow10 k = (if 0 \<le> k then 10 ^ nat k else 1 / 10 ^ nat (- k))"

fun floorlog2 :: "nat \<Rightarrow> nat" where
  \<comment> \<open>the position of the leading bit of a positive number\<close>
  "floorlog2 n = (if n < 2 then 0 else Suc (floorlog2 (n div 2)))"

declare floorlog2.simps [simp del]

definition ilog2 :: "rat \<Rightarrow> int" where
  \<comment> \<open>for \<open>a > 0\<close>, the \<open>e\<close> with \<open>2^e \<le> a < 2^(e+1)\<close>\<close>
  "ilog2 a =
     (let (n, d) = quotient_of a;
          k = int (floorlog2 (nat n)) - int (floorlog2 (nat d))
      in if pow2 k \<le> a then k else k - 1)"

definition round_half_even :: "rat \<Rightarrow> int" where
  "round_half_even r =
     (let f = \<lfloor>r\<rfloor>; d = r - of_int f
      in if d < 1 / 2 then f
         else if 1 / 2 < d then f + 1
         else if even f then f else f + 1)"

definition round64 :: "rat \<Rightarrow> jsnum" where
  \<comment> \<open>53 significant bits, least exponent of the last place -1074, overflow from 2^1024\<close>
  "round64 x =
     (if x = 0 then Num 0
      else let a = \<bar>x\<bar>;
               q = max (ilog2 a - 52) (- 1074);
               y = of_int (round_half_even (a / pow2 q)) * pow2 q
           in if pow2 1024 \<le> y then (if 0 < x then PosInfinity else NegInfinity)
              else Num (if 0 < x then y else - y))"

definition js_of_nat :: "nat \<Rightarrow> jsnum" where
  \<comment> \<open>an array length or a counter: an integer below 2^32, exact as a Number\<close>
  "js_of_nat n = Num (of_nat n)"

definition isNaN :: "jsnum \<Rightarrow> bool" where
  "isNaN x \<longleftrightarrow> x = NaN"

fun js_neg :: "jsnum \<Rightarrow> jsnum" where
  "js_neg (Num x) = Num (- x)"
| "js_neg PosInfinity = NegInfinity"
| "js_neg NegInfinity = PosInfinity"
| "js_neg NaN = NaN"

fun js_add :: "jsnum \<Rightarrow> jsnum \<Rightarrow> jsnum" where
  "js_add NaN y = NaN"
| "js_add x NaN = NaN"
| "js_add PosInfinity NegInfinity = NaN"
| "js_add NegInfinity PosInfinity = NaN"
| "js_add PosInfinity y = PosInfinity"
| "js_add x PosInfinity = PosInfinity"
| "js_add NegInfinity y = NegInfinity"
| "js_add x NegInfinity = NegInfinity"
| "js_add (Num x) (Num y) = round64 (x + y)"

fun js_mul :: "jsnum \<Rightarrow> jsnum \<Rightarrow> jsnum" where
  "js_mul NaN y = NaN"
| "js_mul x NaN = NaN"
| "js_mul PosInfinity PosInfinity = PosInfinity"
| "js_mul PosInfinity NegInfinity = NegInfinity"
| "js_mul NegInfinity PosInfinity = NegInfinity"
| "js_mul NegInfinity NegInfinity = PosInfinity"
| "js_mul PosInfinity (Num y) = (if y = 0 then NaN else if 0 < y then PosInfinity else NegInfinity)"
| "js_mul NegInfinity (Num y) = (if y = 0 then NaN else if 0 < y then NegInfinity else PosInfinity)"
| "js_mul (Num x) PosInfinity = (if x = 0 then NaN else if 0 < x then PosInfinity else NegInfinity)"
| "js_mul (Num x) NegInfinity = (if x = 0 then NaN else if 0 < x then NegInfinity else PosInfinity)"
| "js_mul (Num x) (Num y) = round64 (x * y)"

fun js_div :: "jsnum \<Rightarrow> jsnum \<Rightarrow> jsnum" where
  "js_div NaN y = NaN"
| "js_div x NaN = NaN"
| "js_div PosInfinity (Num y) = (if 0 \<le> y then PosInfinity else NegInfinity)"
| "js_div NegInfinity (Num y) = (if 0 \<le> y then NegInfinity else PosInfinity)"
| "js_div PosInfinity y = NaN"
| "js_div NegInfinity y = NaN"
| "js_div (Num x) PosInfinity = Num 0"
| "js_div (Num x) NegInfinity = Num 0"
| "js_div (Num x) (Num y) =
     (if y = 0 then (if x = 0 then NaN else if 0 < x then PosInfinity else NegInfinity)
      else round64 (x / y))"

fun js_gt :: "jsnum \<Rightarrow> jsnum \<Rightarrow> bool" where
  \<comment> \<open>\<^verbatim>\<open>x > y\<close>: false as soon as one side is NaN\<close>
  "js_gt NaN y = False"
| "js_gt x NaN = False"
| "js_gt PosInfinity PosInfinity = False"
| "js_gt PosInfinity y = True"
| "js_gt x PosInfinity = False"
| "js_gt NegInfinity y = False"
| "js_gt x NegInfinity = True"
| "js_gt (Num x) (Num y) = (y < x)"

subsection \<open>\<^verbatim>\<open>parseFloat\<close>\<close>

definition is_digit :: "char \<Rightarrow> bool" where
  "is_digit c \<longleftrightarrow> c \<in> set ''0123456789''"

definition digits_val :: "string \<Rightarrow> nat" where
  "digits_val ds = foldl (\<lambda>n c. 10 * n + (of_char c - 48)) 0 ds"

definition exponent_part :: "string \<Rightarrow> int" where
  \<comment> \<open>the value of an ExponentPart at the head of \<open>s\<close>: \<^verbatim>\<open>e\<close> or \<^verbatim>\<open>E\<close>, an optional sign and
      at least one digit; 0 when there is none\<close>
  "exponent_part s =
     (case s of
        [] \<Rightarrow> 0
      | c # r \<Rightarrow>
          if c \<noteq> CHR ''e'' \<and> c \<noteq> CHR ''E'' then 0
          else (case r of
                  [] \<Rightarrow> 0
                | d # r' \<Rightarrow>
                    if d = CHR ''-'' then - int (digits_val (takeWhile is_digit r'))
                    else if d = CHR ''+'' then int (digits_val (takeWhile is_digit r'))
                    else int (digits_val (takeWhile is_digit r))))"

definition unsigned_literal :: "string \<Rightarrow> jsnum" where
  \<comment> \<open>the longest prefix that is a StrUnsignedDecimalLiteral: \<^verbatim>\<open>Infinity\<close>, or digits with an
      optional fraction and exponent, at least one digit before the exponent\<close>
  "unsigned_literal s =
     (if starts_with s ''Infinity'' then PosInfinity
      else let ip = takeWhile is_digit s;
               r1 = dropWhile is_digit s;
               fp = (case r1 of [] \<Rightarrow> [] | c # r \<Rightarrow> if c = CHR ''.'' then takeWhile is_digit r else []);
               r2 = (case r1 of [] \<Rightarrow> [] | c # r \<Rightarrow> if c = CHR ''.'' then dropWhile is_digit r else r1)
           in if ip = [] \<and> fp = [] then NaN
              else round64 (of_nat (digits_val (ip @ fp)) * pow10 (exponent_part r2 - int (length fp))))"

definition parseFloat :: "string \<Rightarrow> jsnum" where
  \<comment> \<open>leading white space is skipped, what follows the literal is ignored, no literal gives NaN\<close>
  "parseFloat s =
     (case dropWhile js_whitespace s of
        [] \<Rightarrow> NaN
      | c # r \<Rightarrow>
          if c = CHR ''-'' then js_neg (unsigned_literal r)
          else if c = CHR ''+'' then unsigned_literal r
          else unsigned_literal (c # r))"


section \<open>The metrics of the dashboard page (\<^verbatim>\<open>Index.tsx\<close>, \<^verbatim>\<open>metrics\<close>)\<close>

text \<open>
  The academic dashboard computes the same \<^verbatim>\<open>metrics\<close> in \<^verbatim>\<open>client/pages/Index.tsx\<close>
  and in its later copy with the sign-out header.  Counters and array lengths are natural
  numbers; they become Numbers where the source divides.
\<close>

record metrics_summary =
  totalStudents :: nat
  placedStudents :: nat
  placementRate :: jsnum
  averageCGPA :: jsnum
  withInternship :: nat
  internshipRate :: jsnum

definition placement_value :: "obj \<Rightarrow> string option" where
  \<comment> \<open>\<^verbatim>\<open>student.Placement || student.Placed || student.Status\<close>\<close>
  "placement_value student =
     js_or (js_or (obj_get student ''Placement'') (obj_get student ''Placed''))
       (obj_get student ''Status'')"

definition is_placed :: "obj \<Rightarrow> bool" where
  "is_placed student =
     (case placement_value student of
        None \<Rightarrow> False
      | Some placement \<Rightarrow>
          placement \<noteq> [] \<and>
          (toLowerCase placement = ''placed'' \<or>
           toLowerCase placement = ''yes'' \<or>
           placement = ''1''))"

definition cgpa_value :: "obj \<Rightarrow> string option" where
  \<comment> \<open>\<^verbatim>\<open>student.CGPA || student.cgpa\<close>\<close>
  "cgpa_value student = js_or (obj_get student ''CGPA'') (obj_get student ''cgpa'')"

definition cgpa_step :: "jsnum \<times> nat \<Rightarrow> obj \<Rightarrow> jsnum \<times> nat" where
  \<comment> \<open>the body of the \<^verbatim>\<open>forEach\<close> over the state \<^verbatim>\<open>(totalCGPA, cgpaCount)\<close>\<close>
  "cgpa_step acc student =
     (case cgpa_value student of
        None \<Rightarrow> acc
      | Some cgpa \<Rightarrow>
          if cgpa \<noteq> [] \<and> \<not> isNaN (parseFloat cgpa)
          then (js_add (fst acc) (parseFloat cgpa), snd acc + 1)
          else acc)"

definition internship_value :: "obj \<Rightarrow> string option" where
  \<comment> \<open>\<^verbatim>\<open>student['Internship Experience'] || student.Internship || student.internship\<close>\<close>
  "internship_value student =
     js_or (js_or (obj_get student ''Internship Experience'') (obj_get student ''Internship''))
       (obj_get student ''internship'')"

definition has_internship :: "obj \<Rightarrow> bool" where
  "has_internship student =
     (case internship_value student of
        None \<Rightarrow> False
      | Some internship \<Rightarrow>
          internship \<noteq> [] \<and>
          (toLowerCase internship = ''yes'' \<or>
           internship = ''1'' \<or>
           js_gt (parseFloat internship) (Num 0)))"

definition metrics :: "obj list \<Rightarrow> metrics_summary" where
  "metrics placementData =
     (if length placementData = 0 then
        \<lparr>totalStudents = 0, placedStudents = 0, placementRate = Num 0,
         averageCGPA = Num 0, withInternship = 0, internshipRate = Num 0\<rparr>
      else
        let total = length placementData;
            placed = length (filter is_placed placementData);
            rate = (if total > 0
                    then js_mul (js_div (js_of_nat placed) (js_of_nat total)) (Num 100)
                    else Num 0);
            cgpa_acc = foldl cgpa_step (Num 0, 0) placementData;
            average = (if snd cgpa_acc > 0
                       then js_div (fst cgpa_acc) (js_of_nat (snd cgpa_acc))
                       else Num 0);
            interns = length (filter has_internship placementData);
            irate = (if total > 0
                     then js_mul (js_div (js_of_nat interns) (js_of_nat total)) (Num 100)
                     else Num 0)
        in \<lparr>totalStudents = total, placedStudents = placed, placementRate = rate,
            averageCGPA = average, withInternship = interns, internshipRate = irate\<rparr>)"

definition numeric_values :: "(obj \<Rightarrow> string option) \<Rightarrow> obj list \<Rightarrow> jsnum list" where
  \<comment> \<open>the values of a role that parse as a number, in the order of the records; a record
      without the role, or whose value does not parse, gives none\<close>
  "numeric_values role data =
     concat (map (\<lambda>record.
        case role record of
          None \<Rightarrow> []
        | Some v \<Rightarrow> if isNaN (parseFloat v) then [] else [parseFloat v]) data)"

subsection \<open>The same computation with every division checked\<close>

definition checked_div :: "jsnum \<Rightarrow> jsnum \<Rightarrow> jsnum option" where
  \<comment> \<open>the quotient, or \<open>None\<close> when the divisor is zero\<close>
  "checked_div x y = (if y = Num 0 then None else Some (js_div x y))"

definition metrics_checked :: "obj list \<Rightarrow> metrics_summary option" where
  \<comment> \<open>\<^const>\<open>metrics\<close> with \<^const>\<open>checked_div\<close> at each \<^verbatim>\<open>/\<close>; \<open>None\<close> as soon as one divisor is zero\<close>
  "metrics_checked placementData =
     (if length placementData = 0 then
        Some \<lparr>totalStudents = 0, placedStudents = 0, placementRate = Num 0,
              averageCGPA = Num 0, withInternship = 0, internshipRate = Num 0\<rparr>
      else
        let total = length placementData;
            placed = length (filter is_placed placementData);
            rate = (if total > 0
                    then map_option (\<lambda>q. js_mul q (Num 100))
                           (checked_div (js_of_nat placed) (js_of_nat total))
                    else Some (Num 0));
            cgpa_acc = foldl cgpa_step (Num 0, 0) placementData;
            average = (if snd cgpa_acc > 0
                       then checked_div (fst cgpa_acc) (js_of_nat (snd cgpa_acc))
                       else Some (Num 0));
            interns = length (filter has_internship placementData);
            irate = (if total > 0
                     then map_option (\<lambda>q. js_mul q (Num 100))
                            (checked_div (js_of_nat interns) (js_of_nat total))
                     else Some (Num 0))
        in (case (rate, average, irate) of
              (Some r, Some a, Some i) \<Rightarrow>
                Some \<lparr>totalStudents = total, placedStudents = placed, placementRate = r,
                      averageCGPA = a, withInternship = interns, internshipRate = i\<rparr>
            | _ \<Rightarrow> None))"


section \<open>The metrics of the placement dashboard (salary and companies)\<close>

text \<open>
  The earlier dashboard page, kept in the repository, has a \<^verbatim>\<open>metrics\<close> of its own: the
  average salary and the number of distinct companies.  A \<^verbatim>\<open>Set\<close> is the list of its
  members in insertion order, its \<^verbatim>\<open>size\<close> the length.  The fields
  \<^verbatim>\<open>totalStudents\<close>, \<^verbatim>\<open>placedStudents\<close> and \<^verbatim>\<open>placementRate\<close> of its result are named
  \<open>totalCount\<close>, \<open>placedCount\<close> and \<open>placedShare\<close> here, apart from those of the record above.
\<close>

record placement_summary =
  totalCount :: nat
  placedCount :: nat
  placedShare :: jsnum
  averageSalary :: jsnum
  topCompanies :: nat

definition status_value :: "obj \<Rightarrow> string option" where
  \<comment> \<open>\<^verbatim>\<open>student.Status || student.Placement_Status || student.Placed || student.Company\<close>\<close>
  "status_value student =
     js_or (js_or (js_or (obj_get student ''Status'') (obj_get student ''Placement_Status''))
              (obj_get student ''Placed''))
       (obj_get student ''Company'')"

definition has_status :: "obj \<Rightarrow> bool" where
  "has_status student =
     (case status_value student of
        None \<Rightarrow> False
      | Some status \<Rightarrow>
          status \<noteq> [] \<and> toLowerCase status \<noteq> ''not placed'' \<and>
          toLowerCase status \<noteq> ''no'' \<and> js_trim status \<noteq> [])"

definition salaryFields :: "string list" where
  "salaryFields = [''Salary'', ''Package'', ''CTC'', ''Annual_Package'', ''Offer_Amount'']"

fun salary_loop :: "jsnum \<times> nat \<Rightarrow> obj \<Rightarrow> string list \<Rightarrow> jsnum \<times> nat" where
  \<comment> \<open>\<^verbatim>\<open>for (const field of salaryFields)\<close> over \<^verbatim>\<open>(totalSalary, salaryCount)\<close>, leaving at \<^verbatim>\<open>break\<close>\<close>
  "salary_loop acc student [] = acc"
| "salary_loop acc student (field # rest) =
     (case obj_get student field of
        None \<Rightarrow> salary_loop acc student rest
      | Some salary \<Rightarrow>
          if salary \<noteq> [] \<and> \<not> isNaN (parseFloat salary)
          then (js_add (fst acc) (parseFloat salary), snd acc + 1)
          else salary_loop acc student rest)"

definition companyFields :: "string list" where
  "companyFields = [''Company'', ''Employer'', ''Organization'', ''Company_Name'']"

definition set_add :: "'a list \<Rightarrow> 'a \<Rightarrow> 'a list" where
  \<comment> \<open>\<^verbatim>\<open>set.add(x)\<close>\<close>
  "set_add xs x = (if x \<in> set xs then xs else xs @ [x])"

fun company_loop :: "string list \<Rightarrow> obj \<Rightarrow> string list \<Rightarrow> string list" where
  \<comment> \<open>\<^verbatim>\<open>for (const field of companyFields)\<close> over the set \<^verbatim>\<open>companies\<close>, leaving at \<^verbatim>\<open>break\<close>\<close>
  "company_loop companies student [] = companies"
| "company_loop companies student (field # rest) =
     (case obj_get student field of
        None \<Rightarrow> company_loop companies student rest
      | Some company \<Rightarrow>
          if company \<noteq> [] \<and> js_trim company \<noteq> [] \<and> toLowerCase company \<noteq> ''not placed''
          then set_add companies (js_trim company)
          else company_loop companies student rest)"

definition placement_metrics :: "obj list \<Rightarrow> placement_summary" where
  "placement_metrics placementData =
     (if length placementData = 0 then
        \<lparr>totalCount = 0, placedCount = 0, placedShare = Num 0,
         averageSalary = Num 0, topCompanies = 0\<rparr>
      else
        let total = length placementData;
            placed = length (filter has_status placementData);
            rate = (if total > 0
                    then js_mul (js_div (js_of_nat placed) (js_of_nat total)) (Num 100)
                    else Num 0);
            salary_acc = foldl (\<lambda>acc student. salary_loop acc student salaryFields)
                           (Num 0, 0) placementData;
            average = (if snd salary_acc > 0
                       then js_div (fst salary_acc) (js_of_nat (snd salary_acc))
                       else Num 0);
            companies = foldl (\<lambda>acc student. company_loop acc student companyFields)
                          [] placementData
        in \<lparr>totalCount = total, placedCount = placed, placedShare = rate,
            averageSalary = average, topCompanies = length companies\<rparr>)"

definition placement_metrics_checked :: "obj list \<Rightarrow> placement_summary option" where
  \<comment> \<open>\<^const>\<open>placement_metrics\<close> with \<^const>\<open>checked_div\<close> at each \<^verbatim>\<open>/\<close>\<close>
  "placement_metrics_checked placementData =
     (if length placementData = 0 then
        Some \<lparr>totalCount = 0, placedCount = 0, placedShare = Num 0,
              averageSalary = Num 0, topCompanies = 0\<rparr>
      else
        let total = length placementData;
            placed = length (filter has_status placementData);
            rate = (if total > 0
                    then map_option (\<lambda>q. js_mul q (Num 100))
                           (checked_div (js_of_nat placed) (js_of_nat total))
                    else Some (Num 0));
            salary_acc = foldl (\<lambda>acc student. salary_loop acc student salaryFields)
                           (Num 0, 0) placementData;
            average = (if snd salary_acc > 0
                       then checked_div (fst salary_acc) (js_of_nat (snd salary_acc))
                       else Some (Num 0));
            companies = foldl (\<lambda>acc student. company_loop acc student companyFields)
                          [] placementData
        in (case (rate, average) of
              (Some r, Some a) \<Rightarrow>
                Some \<lparr>totalCount = total, placedCount = placed, placedShare = r,
                      averageSalary = a, topCompanies = length companies\<rparr>
            | _ \<Rightarrow> None))"


subsection \<open>The distinct company count as the specification words it\<close>

definition spec_company_count :: "string \<Rightarrow> obj list \<Rightarrow> nat" where
  \<comment> \<open>the number of unique trimmed values of the company field that are not empty and are
      not \<^verbatim>\<open>not placed\<close> in any spelling of upper and lower case\<close>
  "spec_company_count field data =
     length (remdups (filter (\<lambda>c. c \<noteq> [] \<and> toLowerCase c \<noteq> ''not placed'')
       (map js_trim
          (concat (map (\<lambda>student.
             case obj_get student field of None \<Rightarrow> [] | Some v \<Rightarrow> [v]) data)))))"


section \<open>Property order and the chart configuration (\<^verbatim>\<open>getChartConfig\<close>)\<close>

definition is_array_index :: "string \<Rightarrow> bool" where
  \<comment> \<open>a canonical numeric string of an integer from 0 to 2^32 - 2\<close>
  "is_array_index k \<longleftrightarrow>
     k \<noteq> [] \<and> (\<forall>c \<in> set k. is_digit c) \<and> (k = ''0'' \<or> hd k \<noteq> CHR ''0'') \<and>
     digits_val k < 2 ^ 32 - 1"

definition Object_keys :: "obj \<Rightarrow> string list" where
  \<comment> \<open>\<^verbatim>\<open>Object.keys(obj)\<close>: the array indices in ascending order, then the other names in
      creation order\<close>
  "Object_keys obj =
     (let ks = map fst obj
      in sort_key digits_val (filter is_array_index ks) @
         filter (\<lambda>k. \<not> is_array_index k) ks)"


definition is_cgpa_key :: "string \<Rightarrow> bool" where
  "is_cgpa_key key \<longleftrightarrow>
     js_includes (toLowerCase key) ''cgpa'' \<or> js_includes (toLowerCase key) ''gpa''"


definition is_internship_key :: "string \<Rightarrow> bool" where
  "is_internship_key key \<longleftrightarrow> js_includes (toLowerCase key) ''internship''"

definition is_academic_perf_key :: "string \<Rightarrow> bool" where
  "is_academic_perf_key key \<longleftrightarrow>
     js_includes (toLowerCase key) ''academic'' \<and> js_includes (toLowerCase key) ''performance''"



section \<open>The insight generator (\<^verbatim>\<open>generateInsights\<close>)\<close>

text \<open>
  A description written as a template literal is the list of its parts: the literal text,
  \<open>Fixed d x\<close> for \<^verbatim>\<open>x.toFixed(d)\<close> and \<open>Count n\<close> for an interpolated size.  The
  generator runs after a fixed delay that changes nothing of its result; \<open>None\<close> is its
  return at the guard for no data, before any insight list is set.
\<close>

datatype insight_type = Trend | Recommendation | Prediction | Anomaly

datatype impact_level = High | Medium | Low

datatype text_part = Lit string | Fixed nat jsnum | Count nat

record insight =
  ident :: string
  kind :: insight_type
  title :: string
  description :: "text_part list"
  confidence :: rat
  impact :: impact_level

definition has_key :: "(string \<Rightarrow> bool) \<Rightarrow> obj list \<Rightarrow> bool" where
  \<comment> \<open>\<^verbatim>\<open>data.find((record) => Object.keys(record).some(p))\<close> is truthy\<close>
  "has_key p data \<longleftrightarrow> find (\<lambda>record. list_ex p (Object_keys record)) data \<noteq> None"

definition insight_placed :: "obj \<Rightarrow> bool" where
  \<comment> \<open>\<^verbatim>\<open>placement = record.Placement || record.Placed\<close>, then \<^verbatim>\<open>"placed"\<close> or \<^verbatim>\<open>"1"\<close>\<close>
  "insight_placed record =
     (case js_or (obj_get record ''Placement'') (obj_get record ''Placed'') of
        None \<Rightarrow> False
      | Some placement \<Rightarrow>
          placement \<noteq> [] \<and> (toLowerCase placement = ''placed'' \<or> placement = ''1''))"

definition insight_internship :: "obj \<Rightarrow> bool" where
  "insight_internship record =
     (case js_or (obj_get record ''Internship Experience'') (obj_get record ''Internship'') of
        None \<Rightarrow> False
      | Some internship \<Rightarrow>
          internship \<noteq> [] \<and>
          (toLowerCase internship = ''yes'' \<or> js_gt (parseFloat internship) (Num 0)))"

definition avgCGPA :: "obj list \<Rightarrow> jsnum" where
  "avgCGPA data =
     (let placedStudents = filter insight_placed data
      in js_div
           (foldl (\<lambda>sum record.
                     js_add sum (parseFloat (or_default (cgpa_value record) ''0'')))
              (Num 0) placedStudents)
           (js_of_nat (length placedStudents)))"

definition internshipPlacementRate :: "obj list \<Rightarrow> jsnum" where
  "internshipPlacementRate data =
     (let withInterns = filter insight_internship data
      in js_mul
           (js_div (js_of_nat (length (filter insight_placed withInterns)))
              (js_of_nat (length withInterns)))
           (Num 100))"

definition perfLevels :: "obj list \<Rightarrow> string list" where
  \<comment> \<open>\<^verbatim>\<open>new Set(data.map((record) => record["Academic Performance"]).filter(Boolean))\<close>\<close>
  "perfLevels data =
     remdups (concat (map (\<lambda>record.
        case obj_get record ''Academic Performance'' of
          None \<Rightarrow> []
        | Some v \<Rightarrow> if v \<noteq> [] then [v] else []) data))"

definition cgpa_insight :: "obj list \<Rightarrow> insight" where
  "cgpa_insight data =
     \<lparr>ident = ''1'', kind = Trend, title = ''CGPA Impact on Placement Success'',
      description =
        [Lit ''Students with CGPA above '', Fixed 1 (avgCGPA data),
         Lit '' show significantly higher placement rates. Academic performance remains the strongest predictor of placement success.''],
      confidence = 92 / 100, impact = High\<rparr>"

definition internship_insight :: "obj list \<Rightarrow> insight" where
  "internship_insight data =
     \<lparr>ident = ''2'', kind = Recommendation, title = ''Internship Experience Advantage'',
      description =
        [Lit ''Students with internship experience show '',
         Fixed 0 (internshipPlacementRate data),
         Lit ''% placement rate. Encourage more students to pursue internships for better outcomes.''],
      confidence = 85 / 100, impact = High\<rparr>"

definition performance_insight :: "obj list \<Rightarrow> insight" where
  "performance_insight data =
     \<lparr>ident = ''3'', kind = Trend, title = ''Academic Performance Distribution'',
      description =
        [Count (length (perfLevels data)),
         Lit '' performance levels identified. Students in higher performance categories show 15-25% better placement outcomes.''],
      confidence = 8 / 10, impact = Medium\<rparr>"

definition communication_insight :: insight where
  "communication_insight =
     \<lparr>ident = ''4'', kind = Recommendation, title = ''Communication Skills Development'',
      description =
        [Lit ''Strong communication skills correlate with 30% higher placement success. Consider implementing soft skills training programs.''],
      confidence = 78 / 100, impact = High\<rparr>"

definition projects_insight :: insight where
  "projects_insight =
     \<lparr>ident = ''5'', kind = Prediction, title = ''Project Portfolio Impact'',
      description =
        [Lit ''Students with 3+ completed projects show 40% higher placement probability. Practical experience significantly enhances employability.''],
      confidence = 83 / 100, impact = High\<rparr>"

definition iq_insight :: insight where
  "iq_insight =
     \<lparr>ident = ''6'', kind = Anomaly, title = ''Holistic Assessment Insight'',
      description =
        [Lit ''While IQ scores matter, students with balanced profiles (academics + skills + experience) outperform high-IQ students with limited practical exposure.''],
      confidence = 75 / 100, impact = Medium\<rparr>"

definition extra_curricular_insight :: insight where
  "extra_curricular_insight =
     \<lparr>ident = ''7'', kind = Recommendation, title = ''Well-Rounded Development'',
      description =
        [Lit ''Students with higher extra-curricular scores demonstrate better leadership and teamwork skills, leading to 20% better placement outcomes.''],
      confidence = 7 / 10, impact = Medium\<rparr>"

definition is_communication_key :: "string \<Rightarrow> bool" where
  "is_communication_key key \<longleftrightarrow> js_includes (toLowerCase key) ''communication''"

definition is_project_key :: "string \<Rightarrow> bool" where
  "is_project_key key \<longleftrightarrow> js_includes (toLowerCase key) ''project''"

definition is_iq_key :: "string \<Rightarrow> bool" where
  "is_iq_key key \<longleftrightarrow> js_includes (toLowerCase key) ''iq''"

definition is_extra_curricular_key :: "string \<Rightarrow> bool" where
  "is_extra_curricular_key key \<longleftrightarrow>
     js_includes (toLowerCase key) ''extra'' \<or> js_includes (toLowerCase key) ''curricular''"

definition generateInsights :: "obj list \<Rightarrow> insight list option" where
  \<comment> \<open>the pushes onto \<^verbatim>\<open>newInsights\<close>, in the order of the source\<close>
  "generateInsights data =
     (if length data = 0 then None
      else Some
        ((if has_key is_cgpa_key data then [cgpa_insight data] else []) @
         (if has_key is_internship_key data then [internship_insight data] else []) @
         (if has_key is_academic_perf_key data then [performance_insight data] else []) @
         (if has_key is_communication_key data then [communication_insight] else []) @
         (if has_key is_project_key data then [projects_insight] else []) @
         (if has_key is_iq_key data then [iq_insight] else []) @
         (if has_key is_extra_curricular_key data then [extra_curricular_insight] else [])))"

subsection \<open>The generator of the placement dashboard\<close>

definition departments :: "obj list \<Rightarrow> string option list" where
  \<comment> \<open>\<^verbatim>\<open>new Set(data.map(record => record.Department || record.Course || record.Branch))\<close>;
      \<^verbatim>\<open>undefined\<close> is a member like any other\<close>
  "departments data =
     remdups (map (\<lambda>record.
        js_or (js_or (obj_get record ''Department'') (obj_get record ''Course''))
          (obj_get record ''Branch'')) data)"

definition companies :: "obj list \<Rightarrow> string list" where
  \<comment> \<open>\<^verbatim>\<open>data.map(record => record.Company || record.Employer).filter(Boolean)\<close>\<close>
  "companies data =
     concat (map (\<lambda>record.
        case js_or (obj_get record ''Company'') (obj_get record ''Employer'') of
          None \<Rightarrow> []
        | Some v \<Rightarrow> if v \<noteq> [] then [v] else []) data)"

definition is_salary_key :: "string \<Rightarrow> bool" where
  "is_salary_key key \<longleftrightarrow>
     js_includes (toLowerCase key) ''salary'' \<or> js_includes (toLowerCase key) ''package'' \<or>
     js_includes (toLowerCase key) ''ctc''"

definition is_gender_key :: "string \<Rightarrow> bool" where
  "is_gender_key key \<longleftrightarrow> js_includes (toLowerCase key) ''gender''"

definition is_grade_key :: "string \<Rightarrow> bool" where
  "is_grade_key key \<longleftrightarrow>
     js_includes (toLowerCase key) ''cgpa'' \<or> js_includes (toLowerCase key) ''gpa'' \<or>
     js_includes (toLowerCase key) ''grade''"

definition department_insight :: "obj list \<Rightarrow> insight" where
  "department_insight data =
     \<lparr>ident = ''1'', kind = Trend, title = ''Department Performance Variance'',
      description =
        [Count (length (departments data)),
         Lit '' departments show significantly different placement rates. CS/IT departments typically achieve 15-20% higher placement rates.''],
      confidence = 85 / 100, impact = High\<rparr>"

definition salary_insight :: insight where
  "salary_insight =
     \<lparr>ident = ''2'', kind = Prediction, title = ''Salary Growth Trajectory'',
      description =
        [Lit ''Based on current trends, average placement packages are expected to increase by 12-15% next year, particularly in tech roles.''],
      confidence = 78 / 100, impact = High\<rparr>"

definition gender_insight :: insight where
  "gender_insight =
     \<lparr>ident = ''3'', kind = Recommendation, title = ''Diversity Enhancement Opportunity'',
      description =
        [Lit ''Implementing targeted mentorship programs could improve placement rates for underrepresented groups by 8-12%.''],
      confidence = 72 / 100, impact = Medium\<rparr>"

definition company_insight :: "obj list \<Rightarrow> insight" where
  "company_insight data =
     \<lparr>ident = ''4'', kind = Trend, title = ''Industry Preference Shift'',
      description =
        [Count (length (remdups (companies data))),
         Lit '' unique companies recruited. Tech startups show 25% increase in hiring compared to traditional corporations.''],
      confidence = 8 / 10, impact = Medium\<rparr>"

definition grade_insight :: insight where
  "grade_insight =
     \<lparr>ident = ''5'', kind = Anomaly, title = ''Academic Performance Correlation'',
      description =
        [Lit ''Students with CGPA 7.5-8.5 show highest placement success rate (78%), surpassing those with higher grades.''],
      confidence = 88 / 100, impact = High\<rparr>"

definition skills_insight :: insight where
  "skills_insight =
     \<lparr>ident = ''6'', kind = Recommendation, title = ''Skills Development Priority'',
      description =
        [Lit ''Cloud computing and data analytics skills show 40% higher demand. Consider adding specialized certification programs.''],
      confidence = 75 / 100, impact = High\<rparr>"

definition generatePlacementInsights :: "obj list \<Rightarrow> insight list option" where
  \<comment> \<open>\<^verbatim>\<open>generateInsights\<close> of the placement dashboard; its last push has no condition\<close>
  "generatePlacementInsights data =
     (if length data = 0 then None
      else Some
        ((if length (departments data) > 1 then [department_insight data] else []) @
         (if has_key is_salary_key data then [salary_insight] else []) @
         (if has_key is_gender_key data then [gender_insight] else []) @
         (if length (companies data) > 0 then [company_insight data] else []) @
         (if has_key is_grade_key data then [grade_insight] else []) @
         [skills_insight]))"


subsection \<open>Headers that match no role\<close>

definition matches_no_role :: "string \<Rightarrow> bool" where
  \<comment> \<open>the key satisfies none of the key tests of the two generators and is none of the
      property names they read for the department and the company\<close>
  "matches_no_role key \<longleftrightarrow>
     \<not> is_cgpa_key key \<and> \<not> is_internship_key key \<and> \<not> is_academic_perf_key key \<and>
     \<not> is_communication_key key \<and> \<not> is_project_key key \<and> \<not> is_iq_key key \<and>
     \<not> is_extra_curricular_key key \<and> \<not> is_salary_key key \<and> \<not> is_gender_key key \<and>
     \<not> is_grade_key key \<and>
     key \<notin> set [''Department'', ''Course'', ''Branch'', ''Company'', ''Employer'']"

definition insight_gates :: "(string \<times> (string \<Rightarrow> bool)) list" where
  \<comment> \<open>the catalog of the academic generator: the id of each entry with the key test that
      gates it\<close>
  "insight_gates =
     [(''1'', is_cgpa_key), (''2'', is_internship_key), (''3'', is_academic_perf_key),
      (''4'', is_communication_key), (''5'', is_project_key), (''6'', is_iq_key),
      (''7'', is_extra_curricular_key)]"


section \<open>Properties of the parser\<close>



















text \<open>
  The header \<^verbatim>\<open>__proto__\<close> is the one name the round trip leaves out: the assignment to it
  creates no property, and the records lack the key.
\<close>

lemma proto_header_dropped:
  "csv_headers ''__proto__,Name\<newline>x,A\<newline>'' = [''__proto__'', ''Name''] \<and>
   parseCSV ''__proto__,Name\<newline>x,A\<newline>'' = [[(''Name'', ''A'')]]"
  by code_simp



section \<open>Properties of the number model\<close>

lemma pow2_powi: "pow2 k = power_int 2 k"
  by (simp add: pow2_def power_int_def power_one_over inverse_eq_divide)

lemma pow2_pos: "0 < pow2 k"
  by (simp add: pow2_powi)

lemma pow2_less: "i < j \<Longrightarrow> pow2 i < pow2 j"
  by (simp add: pow2_powi power_int_strict_increasing)

lemma pow2_le: "i \<le> j \<Longrightarrow> pow2 i \<le> pow2 j"
  by (simp add: pow2_powi power_int_increasing)

lemma pow2_add: "pow2 (i + j) = pow2 i * pow2 j"
  by (simp add: pow2_powi power_int_add)

lemma pow2_nat: "pow2 (int n) = 2 ^ n"
  by (simp add: pow2_def)

lemma floorlog2_bounds: "0 < n \<Longrightarrow> 2 ^ floorlog2 n \<le> n \<and> n < 2 * 2 ^ floorlog2 n"
proof (induction n rule: floorlog2.induct)
  case (1 n)
  show ?case
  proof (cases "n < 2")
    case True
    with 1 show ?thesis
      by (simp add: floorlog2.simps [of n])
  next
    case False
    then have "0 < n div 2"
      by simp
    with 1 False have ih: "2 ^ floorlog2 (n div 2) \<le> n div 2 \<and> n div 2 < 2 * 2 ^ floorlog2 (n div 2)"
      by simp
    have fl: "floorlog2 n = Suc (floorlog2 (n div 2))"
      using False by (simp add: floorlog2.simps [of n])
    show ?thesis
      unfolding fl using ih by simp linarith
  qed
qed

lemma ilog2_bounds:
  assumes "0 < a"
  shows "pow2 (ilog2 a) \<le> a \<and> a < pow2 (ilog2 a + 1)"
proof -
  obtain n d where q: "quotient_of a = (n, d)"
    by (cases "quotient_of a")
  have d: "0 < d"
    using q quotient_of_denom_pos by blast
  have a: "a = of_int n / of_int d"
    using q by (rule quotient_of_div)
  have n: "0 < n"
    using assms d a by (simp add: zero_less_divide_iff)
  define i where "i = floorlog2 (nat n)"
  define j where "j = floorlog2 (nat d)"
  define k where "k = int i - int j"
  have bn: "2 ^ i \<le> nat n \<and> nat n < 2 * 2 ^ i"
    unfolding i_def using n by (intro floorlog2_bounds) simp
  have bd: "2 ^ j \<le> nat d \<and> nat d < 2 * 2 ^ j"
    unfolding j_def using d by (intro floorlog2_bounds) simp
  have rn: "(2::rat) ^ i \<le> of_int n" "of_int n < (2::rat) * 2 ^ i"
  proof -
    have "of_nat (2 ^ i) \<le> (of_nat (nat n) :: rat)" "(of_nat (nat n) :: rat) < of_nat (2 * 2 ^ i)"
      using bn by (simp_all only: of_nat_le_iff of_nat_less_iff)
    then show "(2::rat) ^ i \<le> of_int n" "of_int n < (2::rat) * 2 ^ i"
      using n by simp_all
  qed
  have rd: "(2::rat) ^ j \<le> of_int d" "of_int d < (2::rat) * 2 ^ j"
  proof -
    have "of_nat (2 ^ j) \<le> (of_nat (nat d) :: rat)" "(of_nat (nat d) :: rat) < of_nat (2 * 2 ^ j)"
      using bd by (simp_all only: of_nat_le_iff of_nat_less_iff)
    then show "(2::rat) ^ j \<le> of_int d" "of_int d < (2::rat) * 2 ^ j"
      using d by simp_all
  qed
  have pk: "pow2 k = 2 ^ i / 2 ^ j"
    unfolding k_def pow2_powi by (simp add: power_int_diff)
  have dpos: "(0::rat) < of_int d"
    using d by simp
  have p1: "pow2 1 = 2"
    by (simp add: pow2_def)
  have upper: "a < pow2 (k + 1)"
  proof -
    have "0 \<le> (of_int n :: rat)" and "(0::rat) < 2 ^ j"
      using n by simp_all
    with rn(2) rd(1) have "of_int n * (2::rat) ^ j < (2 * 2 ^ i) * of_int d"
      by (intro mult_less_le_imp_less)
    then have "a < 2 * 2 ^ i / 2 ^ j"
      unfolding a using dpos by (simp add: field_simps)
    moreover have "pow2 (k + 1) = 2 * 2 ^ i / 2 ^ j"
      using pow2_add [of k 1] by (simp add: pk p1)
    ultimately show ?thesis
      by simp
  qed
  have lower: "pow2 (k - 1) < a"
  proof -
    have "(0::rat) < 2 ^ i" and "0 \<le> (of_int d :: rat)"
      using d by simp_all
    with rn(1) rd(2) have "(2::rat) ^ i * of_int d < of_int n * (2 * 2 ^ j)"
      by (intro mult_le_less_imp_less)
    then have "2 ^ i / (2 * 2 ^ j) < a"
      unfolding a using dpos by (simp add: field_simps)
    moreover have "pow2 (k - 1) = 2 ^ i / (2 * 2 ^ j)"
      using pow2_add [of "k - 1" 1] by (simp add: pk p1 field_simps)
    ultimately show ?thesis
      by simp
  qed
  have il: "ilog2 a = (if pow2 k \<le> a then k else k - 1)"
    by (simp add: ilog2_def q k_def i_def j_def Let_def)
  show ?thesis
  proof (cases "pow2 k \<le> a")
    case True
    with upper show ?thesis
      by (simp add: il)
  next
    case False
    with lower show ?thesis
      by (simp add: il)
  qed
qed

lemma ilog2_unique:
  assumes "0 < a" and "pow2 e \<le> a" and "a < pow2 (e + 1)"
  shows "ilog2 a = e"
proof -
  have b: "pow2 (ilog2 a) \<le> a" "a < pow2 (ilog2 a + 1)"
    using ilog2_bounds [OF assms(1)] by simp_all
  have "\<not> ilog2 a < e"
  proof
    assume "ilog2 a < e"
    then have "pow2 (ilog2 a + 1) \<le> pow2 e"
      by (intro pow2_le) simp
    with b(2) assms(2) show False
      by simp
  qed
  moreover have "\<not> e < ilog2 a"
  proof
    assume "e < ilog2 a"
    then have "pow2 (e + 1) \<le> pow2 (ilog2 a)"
      by (intro pow2_le) simp
    with b(1) assms(3) show False
      by simp
  qed
  ultimately show ?thesis
    by simp
qed

lemma round_half_even_near:
  assumes "\<bar>r - of_int m\<bar> < 1 / 2"
  shows "round_half_even r = m"
proof -
  have b: "of_int m - 1 / 2 < r" "r < of_int m + 1 / 2"
    using assms by (simp_all only: abs_diff_less_iff)
  then have lo: "of_int (m - 1) \<le> r" and hi: "r < of_int (m + 1)"
    by simp_all
  have "m - 1 \<le> \<lfloor>r\<rfloor>"
    using lo by (simp only: le_floor_iff)
  moreover have "\<lfloor>r\<rfloor> < m + 1"
    using hi by (simp only: floor_less_iff)
  ultimately have cases: "\<lfloor>r\<rfloor> = m \<or> \<lfloor>r\<rfloor> = m - 1"
    by linarith
  then show ?thesis
  proof
    assume f: "\<lfloor>r\<rfloor> = m"
    have "r - of_int m < 1 / 2"
      using b(2) by linarith
    then show ?thesis
      by (simp add: round_half_even_def Let_def f)
  next
    assume f: "\<lfloor>r\<rfloor> = m - 1"
    have "\<not> r - of_int (m - 1) < 1 / 2" and "1 / 2 < r - of_int (m - 1)"
      using b(1) by simp_all
    then show ?thesis
      by (simp add: round_half_even_def Let_def f)
  qed
qed

lemma round64_near:
  assumes "0 < x" and "pow2 e \<le> x" and "x < pow2 (e + 1)"
    and "\<bar>x / pow2 (max (e - 52) (- 1074)) - of_int m\<bar> < 1 / 2"
    and "of_int m * pow2 (max (e - 52) (- 1074)) < pow2 1024"
  shows "round64 x = Num (of_int m * pow2 (max (e - 52) (- 1074)))"
proof -
  have e: "ilog2 x = e"
    using assms(1-3) by (rule ilog2_unique)
  have m: "round_half_even (x / pow2 (max (e - 52) (- 1074))) = m"
    using assms(4) by (rule round_half_even_near)
  show ?thesis
    using assms(1,5) by (simp add: round64_def Let_def e m)
qed
lemma round64_half: "round64 (1 / 2) = Num (1 / 2)"
  using round64_near [of "1 / 2" "- 1" "4503599627370496"] by (simp add: pow2_def)

lemma round64_50: "round64 50 = Num 50"
  using round64_near [of "50" "5" "7036874417766400"] by (simp add: pow2_def)

lemma round64_8_5: "round64 (17 / 2) = Num (17 / 2)"
  using round64_near [of "17 / 2" "3" "4785074604081152"] by (simp add: pow2_def)

lemma parse_8_5: "parseFloat ''8.5'' = Num (17 / 2)"
  by (simp add: parseFloat_def unsigned_literal_def js_whitespace_def is_digit_def digits_val_def
        exponent_part_def pow10_def round64_8_5)

section \<open>Properties of the metrics\<close>

lemma lower_char_code: "of_char (lower_char c) = (49::nat) \<Longrightarrow> c = CHR ''1''"
proof -
  assume a: "of_char (lower_char c) = (49::nat)"
  define n where "n = (of_char c :: nat)"
  define b where "b \<longleftrightarrow> (65 \<le> n \<and> n \<le> 90) \<or> (192 \<le> n \<and> n \<le> 222 \<and> n \<noteq> 215)"
  have low: "lower_char c = (if b then char_of (n + 32) else c)"
    by (simp add: lower_char_def Let_def b_def n_def)
  show ?thesis
  proof (cases b)
    case True
    then have "(n + 32) mod 256 = 49"
      using a low by simp
    moreover have "65 \<le> n" and "n \<le> 222"
      using True by (auto simp: b_def)
    ultimately show ?thesis
      by simp
  next
    case False
    with a low have "of_char c = (of_char (CHR ''1'') :: nat)"
      by simp
    then show ?thesis
      by (simp only: of_char_eq_iff)
  qed
qed

lemma toLowerCase_Nil: "toLowerCase [] = []"
  by (simp add: toLowerCase_def)

lemma toLowerCase_one: "toLowerCase s = ''1'' \<longleftrightarrow> s = ''1''"
proof
  assume "toLowerCase s = ''1''"
  then obtain c where s: "s = [c]" and c: "lower_char c = CHR ''1''"
    by (auto simp: toLowerCase_def)
  from c have "of_char (lower_char c) = (49::nat)"
    by simp
  then show "s = ''1''"
    using s lower_char_code by simp
next
  assume "s = ''1''"
  then show "toLowerCase s = ''1''"
    by (simp add: toLowerCase_def lower_char_def)
qed

lemma is_placed_iff:
  "is_placed student \<longleftrightarrow>
   (case placement_value student of
      None \<Rightarrow> False
    | Some v \<Rightarrow> toLowerCase v \<in> {''placed'', ''yes'', ''1''})"
proof (cases "placement_value student")
  case None
  then show ?thesis
    by (simp add: is_placed_def)
next
  case (Some v)
  have "v \<noteq> []" if "toLowerCase v \<in> {''placed'', ''yes'', ''1''}"
    using that by (auto simp: toLowerCase_Nil)
  then show ?thesis
    using Some by (auto simp: is_placed_def toLowerCase_one)
qed

lemma metrics_totalStudents: "totalStudents (metrics data) = length data"
  by (simp add: metrics_def Let_def)

lemma metrics_placedStudents: "placedStudents (metrics data) = length (filter is_placed data)"
  by (simp add: metrics_def Let_def)

lemma metrics_withInternship: "withInternship (metrics data) = length (filter has_internship data)"
  by (simp add: metrics_def Let_def)

lemma metrics_placementRate:
  "placementRate (metrics data) =
   (if data = [] then Num 0
    else js_mul (js_div (js_of_nat (length (filter is_placed data))) (js_of_nat (length data)))
           (Num 100))"
  by (simp add: metrics_def Let_def)

lemma metrics_internshipRate:
  "internshipRate (metrics data) =
   (if data = [] then Num 0
    else js_mul (js_div (js_of_nat (length (filter has_internship data))) (js_of_nat (length data)))
           (Num 100))"
  by (simp add: metrics_def Let_def)

lemma scenario_A_parse:
  "parseCSV ''Name,Status\<newline>A,Placed\<newline>B,Not Placed\<newline>'' =
   [[(''Name'', ''A''), (''Status'', ''Placed'')], [(''Name'', ''B''), (''Status'', ''Not Placed'')]]"
  by code_simp

lemma scenario_A_filter:
  "filter is_placed [[(''Name'', ''A''), (''Status'', ''Placed'')],
                     [(''Name'', ''B''), (''Status'', ''Not Placed'')]] =
   [[(''Name'', ''A''), (''Status'', ''Placed'')]]"
  by code_simp

lemma scenario_A_records:
  "length (parseCSV ''Name,Status\<newline>A,Placed\<newline>B,Not Placed\<newline>'') = 2"
  by (simp add: scenario_A_parse)

lemma scenario_A_placed:
  "placedStudents (metrics (parseCSV ''Name,Status\<newline>A,Placed\<newline>B,Not Placed\<newline>'')) = 1"
  unfolding scenario_A_parse metrics_placedStudents scenario_A_filter by simp

lemma scenario_A_rate:
  "placementRate (metrics (parseCSV ''Name,Status\<newline>A,Placed\<newline>B,Not Placed\<newline>'')) = Num 50"
  unfolding scenario_A_parse metrics_placementRate scenario_A_filter
  by (simp add: js_of_nat_def round64_half round64_50)

text \<open>
  Claim C2.  The number of placed students is the number of records whose placement value
  (\<^verbatim>\<open>Placement\<close>, else \<^verbatim>\<open>Placed\<close>, else \<^verbatim>\<open>Status\<close>), in lower case, is one of
  \<^verbatim>\<open>placed\<close>, \<^verbatim>\<open>yes\<close>, \<^verbatim>\<open>1\<close>; every record counts in the total, and the rate is the
  quotient of the two times 100.  The text of Scenario A has 2 records, 1 of them placed,
  and a placement rate of 50.
\<close>

theorem placed_count:
  "placedStudents (metrics data) =
     length (filter (\<lambda>student.
        case placement_value student of
          None \<Rightarrow> False
        | Some v \<Rightarrow> toLowerCase v \<in> {''placed'', ''yes'', ''1''}) data) \<and>
   totalStudents (metrics data) = length data \<and>
   placementRate (metrics data) =
     (if data = [] then Num 0
      else js_mul (js_div (js_of_nat (placedStudents (metrics data)))
                     (js_of_nat (totalStudents (metrics data)))) (Num 100)) \<and>
   length (parseCSV ''Name,Status\<newline>A,Placed\<newline>B,Not Placed\<newline>'') = 2 \<and>
   placedStudents (metrics (parseCSV ''Name,Status\<newline>A,Placed\<newline>B,Not Placed\<newline>'')) = 1 \<and>
   placementRate (metrics (parseCSV ''Name,Status\<newline>A,Placed\<newline>B,Not Placed\<newline>'')) = Num 50"
proof -
  have "filter is_placed data =
        filter (\<lambda>student.
          case placement_value student of
            None \<Rightarrow> False
          | Some v \<Rightarrow> toLowerCase v \<in> {''placed'', ''yes'', ''1''}) data"
    by (rule filter_cong) (simp_all add: is_placed_iff)
  then have "placedStudents (metrics data) =
     length (filter (\<lambda>student.
        case placement_value student of
          None \<Rightarrow> False
        | Some v \<Rightarrow> toLowerCase v \<in> {''placed'', ''yes'', ''1''}) data)"
    by (simp only: metrics_placedStudents)
  moreover have "placementRate (metrics data) =
     (if data = [] then Num 0
      else js_mul (js_div (js_of_nat (placedStudents (metrics data)))
                     (js_of_nat (totalStudents (metrics data)))) (Num 100))"
    by (simp only: metrics_placedStudents metrics_totalStudents metrics_placementRate)
  ultimately show ?thesis
    using metrics_totalStudents scenario_A_records scenario_A_placed scenario_A_rate
    by blast
qed

theorem placed_count_witness:
  "placedStudents (metrics [[(''Placed'', ''YES'')], [(''Status'', ''no'')], [(''Name'', ''C'')]]) = 1 \<and>
   totalStudents (metrics [[(''Placed'', ''YES'')], [(''Status'', ''no'')], [(''Name'', ''C'')]]) = 3"
proof -
  let ?d = "[[(''Placed'', ''YES'')], [(''Status'', ''no'')], [(''Name'', ''C'')]]"
  have "length (filter (\<lambda>student.
        case placement_value student of
          None \<Rightarrow> False
        | Some v \<Rightarrow> toLowerCase v \<in> {''placed'', ''yes'', ''1''}) ?d) = 1"
    by code_simp
  then show ?thesis
    using placed_count [of ?d] by simp
qed

lemma round64_8: "round64 8 = Num 8"
  using round64_near [of "8" "3" "4503599627370496"] by (simp add: pow2_def)

lemma round64_9: "round64 9 = Num 9"
  using round64_near [of "9" "3" "5066549580791808"] by (simp add: pow2_def)

lemma round64_17: "round64 17 = Num 17"
  using round64_near [of "17" "4" "4785074604081152"] by (simp add: pow2_def)

lemma parseFloat_Nil: "parseFloat [] = NaN"
  by (simp add: parseFloat_def)

lemmas parseFloat_eval =
  parseFloat_def unsigned_literal_def js_whitespace_def is_digit_def digits_val_def
  exponent_part_def pow10_def

lemma parse_8: "parseFloat ''8'' = Num 8"
  by (simp add: parseFloat_eval round64_8)

lemma parse_9: "parseFloat ''9'' = Num 9"
  by (simp add: parseFloat_eval round64_9)

lemma parse_x: "parseFloat ''x'' = NaN"
  by (simp add: parseFloat_eval)

lemma parse_not_a_number: "parseFloat ''not_a_number'' = NaN"
  by (simp add: parseFloat_eval)

lemma cgpa_fold:
  "foldl cgpa_step (t, c) data =
   (foldl js_add t (numeric_values cgpa_value data), c + length (numeric_values cgpa_value data))"
proof (induction data arbitrary: t c)
  case Nil
  then show ?case
    by (simp add: numeric_values_def)
next
  case (Cons student data)
  have step: "cgpa_step (t, c) student =
        (case cgpa_value student of
           None \<Rightarrow> (t, c)
         | Some v \<Rightarrow> if isNaN (parseFloat v) then (t, c) else (js_add t (parseFloat v), c + 1))"
    by (auto simp: cgpa_step_def parseFloat_Nil isNaN_def split: option.splits)
  have nv: "numeric_values cgpa_value (student # data) =
        (case cgpa_value student of
           None \<Rightarrow> []
         | Some v \<Rightarrow> if isNaN (parseFloat v) then [] else [parseFloat v]) @
        numeric_values cgpa_value data"
    by (simp add: numeric_values_def)
  show ?case
    by (simp add: step nv Cons.IH split: option.splits)
qed

lemma metrics_averageCGPA:
  "averageCGPA (metrics data) =
   (let vs = numeric_values cgpa_value data
    in if vs = [] then Num 0 else js_div (foldl js_add (Num 0) vs) (js_of_nat (length vs)))"
proof (cases "data = []")
  case True
  then show ?thesis
    by (simp add: metrics_def numeric_values_def)
next
  case False
  then show ?thesis
    by (simp add: metrics_def Let_def cgpa_fold)
qed

lemma scenario_B_parse:
  "parseCSV ''Name,CGPA\<newline>A,8.5\<newline>B,not_a_number\<newline>'' =
   [[(''Name'', ''A''), (''CGPA'', ''8.5'')], [(''Name'', ''B''), (''CGPA'', ''not_a_number'')]]"
  by code_simp

lemma scenario_B_values:
  "numeric_values cgpa_value
     [[(''Name'', ''A''), (''CGPA'', ''8.5'')], [(''Name'', ''B''), (''CGPA'', ''not_a_number'')]] =
   [Num (17 / 2)]"
  by (simp add: numeric_values_def cgpa_value_def js_or_def obj_get_def truthy_def isNaN_def
        parse_8_5 parse_not_a_number)

text \<open>
  Claim C4.  The average CGPA is taken over the CGPA values (\<^verbatim>\<open>CGPA\<close>, else \<^verbatim>\<open>cgpa\<close>) that
  \<^verbatim>\<open>parseFloat\<close> reads as a number: their sum, accumulated from 0 in the order of the
  records, divided by their count, and 0 when there is none.  In Scenario B only the value
  8.5 parses, and the average is 8.5.
\<close>

theorem average_cgpa:
  "averageCGPA (metrics data) =
     (let vs = numeric_values cgpa_value data
      in if vs = [] then Num 0 else js_div (foldl js_add (Num 0) vs) (js_of_nat (length vs))) \<and>
   numeric_values cgpa_value (parseCSV ''Name,CGPA\<newline>A,8.5\<newline>B,not_a_number\<newline>'') =
     [Num (17 / 2)] \<and>
   averageCGPA (metrics (parseCSV ''Name,CGPA\<newline>A,8.5\<newline>B,not_a_number\<newline>'')) = Num (17 / 2)"
proof -
  have "averageCGPA (metrics (parseCSV ''Name,CGPA\<newline>A,8.5\<newline>B,not_a_number\<newline>'')) =
        Num (17 / 2)"
    unfolding metrics_averageCGPA scenario_B_parse scenario_B_values
    by (simp add: js_of_nat_def round64_8_5)
  then show ?thesis
    using metrics_averageCGPA scenario_B_values by (simp only: scenario_B_parse)
qed

theorem average_cgpa_witness:
  "numeric_values cgpa_value [[(''CGPA'', ''8'')], [(''cgpa'', ''9'')], [(''CGPA'', ''x'')], [(''Name'', ''D'')]] =
     [Num 8, Num 9] \<and>
   averageCGPA (metrics [[(''CGPA'', ''8'')], [(''cgpa'', ''9'')], [(''CGPA'', ''x'')], [(''Name'', ''D'')]]) =
     Num (17 / 2)"
proof -
  let ?d = "[[(''CGPA'', ''8'')], [(''cgpa'', ''9'')], [(''CGPA'', ''x'')], [(''Name'', ''D'')]]"
  have vs: "numeric_values cgpa_value ?d = [Num 8, Num 9]"
    by (simp add: numeric_values_def cgpa_value_def js_or_def obj_get_def truthy_def isNaN_def
          parse_8 parse_9 parse_x)
  have "averageCGPA (metrics ?d) =
        (let vs = numeric_values cgpa_value ?d
         in if vs = [] then Num 0 else js_div (foldl js_add (Num 0) vs) (js_of_nat (length vs)))"
    using average_cgpa [of ?d] by blast
  then have "averageCGPA (metrics ?d) = Num (17 / 2)"
    unfolding vs by (simp add: js_of_nat_def round64_8 round64_17 round64_8_5)
  with vs show ?thesis
    by simp
qed

lemma checked_div_count: "0 < n \<Longrightarrow> checked_div x (js_of_nat n) = Some (js_div x (js_of_nat n))"
  by (simp add: checked_div_def js_of_nat_def)

text \<open>
  Claim C6.  For no data the metrics report a total of 0 and a placement rate of 0.  On every
  Dataset, the computation with each division checked for a zero divisor never stops at a
  check and gives the metrics themselves: the placement rate, the averages and the
  internship rate are never divided by zero (in both dashboards).
\<close>

theorem metrics_no_zero_divisor:
  "totalStudents (metrics []) = 0 \<and>
   placementRate (metrics []) = Num 0 \<and>
   metrics_checked data = Some (metrics data) \<and>
   placement_metrics_checked data = Some (placement_metrics data)"
proof -
  have "metrics_checked data = Some (metrics data)"
    by (simp add: metrics_checked_def metrics_def Let_def checked_div_count)
  moreover have "placement_metrics_checked data = Some (placement_metrics data)"
    by (simp add: placement_metrics_checked_def placement_metrics_def Let_def checked_div_count)
  moreover have "totalStudents (metrics []) = 0" and "placementRate (metrics []) = Num 0"
    by (simp_all add: metrics_def)
  ultimately show ?thesis
    by simp
qed

theorem metrics_no_zero_divisor_witness:
  "metrics_checked [[(''Name'', ''A'')]] = Some (metrics [[(''Name'', ''A'')]]) \<and>
   metrics_checked [] = Some (metrics []) \<and>
   placement_metrics_checked [[(''Salary'', ''x'')]] = Some (placement_metrics [[(''Salary'', ''x'')]])"
  using metrics_no_zero_divisor [of "[[(''Name'', ''A'')]]"]
    metrics_no_zero_divisor [of "[]"]
    metrics_no_zero_divisor [of "[[(''Salary'', ''x'')]]"]
  by simp

lemma round_half_even_tie:
  assumes "r = of_int f + 1 / 2"
  shows "round_half_even r = (if even f then f else f + 1)"
proof -
  have "\<lfloor>r\<rfloor> = f"
    unfolding assms by (simp add: floor_eq_iff)
  then show ?thesis
    by (simp add: round_half_even_def Let_def assms)
qed

lemma round64_tie:
  assumes "0 < x" and "pow2 e \<le> x" and "x < pow2 (e + 1)"
    and "x / pow2 (max (e - 52) (- 1074)) = of_int f + 1 / 2"
    and "of_int (if even f then f else f + 1) * pow2 (max (e - 52) (- 1074)) < pow2 1024"
  shows "round64 x = Num (of_int (if even f then f else f + 1) * pow2 (max (e - 52) (- 1074)))"
proof -
  have e: "ilog2 x = e"
    using assms(1-3) by (rule ilog2_unique)
  have m: "round_half_even (x / pow2 (max (e - 52) (- 1074))) = (if even f then f else f + 1)"
    using assms(4) by (rule round_half_even_tie)
  show ?thesis
    using assms(1,5) by (simp add: round64_def Let_def e m del: of_int_add)
qed

lemma round64_dec_0_1: "round64 (1 / 10) = Num (3602879701896397 / 36028797018963968)"
  using round64_near [of "1 / 10" "- 4" "7205759403792794"] by (simp add: pow2_def)

lemma round64_dec_0_2: "round64 (1 / 5) = Num (3602879701896397 / 18014398509481984)"
  using round64_near [of "1 / 5" "- 3" "7205759403792794"] by (simp add: pow2_def)

lemma round64_dec_0_3: "round64 (3 / 10) = Num (5404319552844595 / 18014398509481984)"
  using round64_near [of "3 / 10" "- 2" "5404319552844595"] by (simp add: pow2_def)

lemma round64_sum_a: "round64 (3602879701896397 / 36028797018963968) = Num (3602879701896397 / 36028797018963968)"
  using round64_near [of "3602879701896397 / 36028797018963968" "- 4" "7205759403792794"] by (simp add: pow2_def)

lemma round64_sum_ab: "round64 (10808639105689191 / 36028797018963968) = Num (1351079888211149 / 4503599627370496)"
  using round64_tie [of "10808639105689191 / 36028797018963968" "- 2" "5404319552844595"] by (simp add: pow2_def)

lemma round64_sum_abc: "round64 (10808639105689191 / 18014398509481984) = Num (1351079888211149 / 2251799813685248)"
  using round64_tie [of "10808639105689191 / 18014398509481984" "- 1" "5404319552844595"] by (simp add: pow2_def)

lemma round64_avg_abc: "round64 (1351079888211149 / 6755399441055744) = Num (7205759403792795 / 36028797018963968)"
  using round64_near [of "1351079888211149 / 6755399441055744" "- 3" "7205759403792795"] by (simp add: pow2_def)

lemma round64_sum_c: "round64 (5404319552844595 / 18014398509481984) = Num (5404319552844595 / 18014398509481984)"
  using round64_near [of "5404319552844595 / 18014398509481984" "- 2" "5404319552844595"] by (simp add: pow2_def)

lemma round64_sum_cba: "round64 (21617278211378381 / 36028797018963968) = Num (5404319552844595 / 9007199254740992)"
  using round64_near [of "21617278211378381 / 36028797018963968" "- 1" "5404319552844595"] by (simp add: pow2_def)

lemma round64_avg_cba: "round64 (5404319552844595 / 27021597764222976) = Num (7205759403792793 / 36028797018963968)"
  using round64_near [of "5404319552844595 / 27021597764222976" "- 3" "7205759403792793"] by (simp add: pow2_def)


lemma parse_dec_0_1: "parseFloat ''0.1'' = Num (3602879701896397 / 36028797018963968)"
  by (simp add: parseFloat_eval round64_dec_0_1)

lemma parse_dec_0_2: "parseFloat ''0.2'' = Num (3602879701896397 / 18014398509481984)"
  by (simp add: parseFloat_eval round64_dec_0_2)

lemma parse_dec_0_3: "parseFloat ''0.3'' = Num (5404319552844595 / 18014398509481984)"
  by (simp add: parseFloat_eval round64_dec_0_3)

lemma filter_length_mset: "mset xs = mset ys \<Longrightarrow> length (filter P xs) = length (filter P ys)"
  by (metis mset_filter size_mset)

lemma numeric_values_mset:
  assumes "mset xs = mset ys"
  shows "mset (numeric_values role xs) = mset (numeric_values role ys)"
proof -
  have "mset (concat (map f zs)) = sum_mset (image_mset (mset \<circ> f) (mset zs))" for f :: "obj \<Rightarrow> jsnum list" and zs
    by (induction zs) simp_all
  then show ?thesis
    unfolding numeric_values_def using assms by simp
qed

lemma order_parse_1:
  "parseCSV ''CGPA\<newline>0.1\<newline>0.2\<newline>0.3\<newline>'' =
   [[(''CGPA'', ''0.1'')], [(''CGPA'', ''0.2'')], [(''CGPA'', ''0.3'')]]"
  by code_simp

lemma order_parse_2:
  "parseCSV ''CGPA\<newline>0.3\<newline>0.2\<newline>0.1\<newline>'' =
   [[(''CGPA'', ''0.3'')], [(''CGPA'', ''0.2'')], [(''CGPA'', ''0.1'')]]"
  by code_simp

lemma order_values_1:
  "numeric_values cgpa_value [[(''CGPA'', ''0.1'')], [(''CGPA'', ''0.2'')], [(''CGPA'', ''0.3'')]] =
   [Num (3602879701896397 / 36028797018963968), Num (3602879701896397 / 18014398509481984),
    Num (5404319552844595 / 18014398509481984)]"
  by (simp add: numeric_values_def cgpa_value_def js_or_def obj_get_def truthy_def isNaN_def
        parse_dec_0_1 parse_dec_0_2 parse_dec_0_3)

lemma order_values_2:
  "numeric_values cgpa_value [[(''CGPA'', ''0.3'')], [(''CGPA'', ''0.2'')], [(''CGPA'', ''0.1'')]] =
   [Num (5404319552844595 / 18014398509481984), Num (3602879701896397 / 18014398509481984),
    Num (3602879701896397 / 36028797018963968)]"
  by (simp add: numeric_values_def cgpa_value_def js_or_def obj_get_def truthy_def isNaN_def
        parse_dec_0_1 parse_dec_0_2 parse_dec_0_3)

lemma order_average_1:
  "averageCGPA (metrics (parseCSV ''CGPA\<newline>0.1\<newline>0.2\<newline>0.3\<newline>'')) =
   Num (7205759403792795 / 36028797018963968)"
  unfolding metrics_averageCGPA order_parse_1 order_values_1
  by (simp add: js_of_nat_def round64_sum_a round64_sum_ab round64_sum_abc round64_avg_abc)

lemma order_average_2:
  "averageCGPA (metrics (parseCSV ''CGPA\<newline>0.3\<newline>0.2\<newline>0.1\<newline>'')) =
   Num (7205759403792793 / 36028797018963968)"
  unfolding metrics_averageCGPA order_parse_2 order_values_2
  by (simp add: js_of_nat_def round64_sum_c round64_half round64_sum_cba round64_avg_cba)

text \<open>
  Claim C9, as stated, fails: the two texts below hold the same three records in a
  different order, and the average CGPA of the one is 0.20000000000000004 and of the
  other 0.19999999999999998, because the sum is accumulated in binary64 arithmetic in the
  order of the records.
\<close>

theorem order_dependent_average:
  "mset (parseCSV ''CGPA\<newline>0.1\<newline>0.2\<newline>0.3\<newline>'') =
   mset (parseCSV ''CGPA\<newline>0.3\<newline>0.2\<newline>0.1\<newline>'') \<and>
   averageCGPA (metrics (parseCSV ''CGPA\<newline>0.1\<newline>0.2\<newline>0.3\<newline>'')) \<noteq>
   averageCGPA (metrics (parseCSV ''CGPA\<newline>0.3\<newline>0.2\<newline>0.1\<newline>''))"
proof -
  have "mset (parseCSV ''CGPA\<newline>0.1\<newline>0.2\<newline>0.3\<newline>'') =
        mset (parseCSV ''CGPA\<newline>0.3\<newline>0.2\<newline>0.1\<newline>'')"
    unfolding order_parse_1 order_parse_2 by (simp add: add_mset_commute)
  then show ?thesis
    unfolding order_average_1 order_average_2 by simp
qed

text \<open>
  Claim C9, amended.  The metrics are a function of the Dataset, and for two Datasets that
  are permutations of one another the total, the number of placed students, the placement
  rate, the number with an internship and the internship rate are identical, and the
  average CGPA is taken over the same values, as many times each; it is identical
  whenever the values that parse come in the same order.
\<close>

theorem metrics_permutation:
  assumes "mset data1 = mset data2"
  shows "totalStudents (metrics data1) = totalStudents (metrics data2) \<and>
         placedStudents (metrics data1) = placedStudents (metrics data2) \<and>
         placementRate (metrics data1) = placementRate (metrics data2) \<and>
         withInternship (metrics data1) = withInternship (metrics data2) \<and>
         internshipRate (metrics data1) = internshipRate (metrics data2) \<and>
         mset (numeric_values cgpa_value data1) = mset (numeric_values cgpa_value data2) \<and>
         (numeric_values cgpa_value data1 = numeric_values cgpa_value data2 \<longrightarrow>
            averageCGPA (metrics data1) = averageCGPA (metrics data2))"
proof -
  have len: "length data1 = length data2"
    using assms by (rule mset_eq_length)
  then have nil: "data1 = [] \<longleftrightarrow> data2 = []"
    by auto
  have placed: "length (filter is_placed data1) = length (filter is_placed data2)"
    using assms by (rule filter_length_mset)
  have interns: "length (filter has_internship data1) = length (filter has_internship data2)"
    using assms by (rule filter_length_mset)
  show ?thesis
    using numeric_values_mset [OF assms]
    by (simp add: metrics_totalStudents metrics_placedStudents metrics_placementRate
          metrics_withInternship metrics_internshipRate metrics_averageCGPA
          len nil placed interns)
qed

theorem metrics_permutation_witness:
  "mset [[(''Status'', ''Placed'')], [(''CGPA'', ''8'')]] =
   mset [[(''CGPA'', ''8'')], [(''Status'', ''Placed'')]] \<and>
   placedStudents (metrics [[(''Status'', ''Placed'')], [(''CGPA'', ''8'')]]) =
   placedStudents (metrics [[(''CGPA'', ''8'')], [(''Status'', ''Placed'')]]) \<and>
   placementRate (metrics [[(''Status'', ''Placed'')], [(''CGPA'', ''8'')]]) =
   placementRate (metrics [[(''CGPA'', ''8'')], [(''Status'', ''Placed'')]]) \<and>
   averageCGPA (metrics [[(''Status'', ''Placed'')], [(''CGPA'', ''8'')]]) =
   averageCGPA (metrics [[(''CGPA'', ''8'')], [(''Status'', ''Placed'')]])"
proof -
  let ?d1 = "[[(''Status'', ''Placed'')], [(''CGPA'', ''8'')]]"
  let ?d2 = "[[(''CGPA'', ''8'')], [(''Status'', ''Placed'')]]"
  have perm: "mset ?d1 = mset ?d2"
    by (simp add: add_mset_commute)
  have same: "numeric_values cgpa_value ?d1 = numeric_values cgpa_value ?d2"
    by (simp add: numeric_values_def cgpa_value_def js_or_def obj_get_def truthy_def)
  show ?thesis
    using metrics_permutation [OF perm] perm same by blast
qed

section \<open>Properties of the role resolution\<close>























section \<open>Properties of the insight generators\<close>

lemma Object_keys_set: "set (Object_keys obj) = own_keys obj"
  by (auto simp: Object_keys_def Let_def own_keys_def)

lemma has_key_iff: "has_key p data \<longleftrightarrow> (\<exists>record \<in> set data. \<exists>key \<in> own_keys record. p key)"
  by (auto simp: has_key_def find_None_iff list_ex_iff Object_keys_set)

lemma obj_get_absent: "key \<notin> own_keys obj \<Longrightarrow> obj_get obj key = None"
  by (simp add: obj_get_def own_keys_def map_of_eq_None_iff)

lemma remdups_constant:
  assumes "\<forall>x \<in> set xs. f x = c"
  shows "length (remdups (map f xs)) \<le> 1"
proof -
  have "set (map f xs) \<subseteq> {c}"
    using assms by auto
  then have "card (set (map f xs)) \<le> card {c}"
    by (intro card_mono) simp_all
  then show ?thesis
    by (simp add: length_remdups_card_conv)
qed

lemma generateInsights_idents:
  assumes "data \<noteq> []"
  shows "map_option (map ident) (generateInsights data) =
         Some (map fst (filter (\<lambda>gate. has_key (snd gate) data) insight_gates))"
  using assms
  by (simp add: generateInsights_def insight_gates_def cgpa_insight_def internship_insight_def
        performance_insight_def communication_insight_def projects_insight_def iq_insight_def
        extra_curricular_insight_def)

text \<open>
  Claim C8.  The generators return a list for every Dataset with a record (they raise no
  error).  The academic generator lists an entry exactly when its gate holds: some record
  has a key that matches the entry's role.  The placement generator always ends with its
  entry without a gate.  When no key of any record matches a role, the academic generator
  returns the empty list and the placement generator only its entry without a gate.
\<close>

theorem insights_without_roles:
  assumes "data \<noteq> []"
  shows "map_option (map ident) (generateInsights data) =
           Some (map fst (filter (\<lambda>gate. has_key (snd gate) data) insight_gates)) \<and>
         (\<exists>gated. generatePlacementInsights data = Some (gated @ [skills_insight])) \<and>
         ((\<forall>record \<in> set data. \<forall>key \<in> own_keys record. matches_no_role key) \<longrightarrow>
            generateInsights data = Some [] \<and>
            generatePlacementInsights data = Some [skills_insight])"
proof -
  have "generateInsights data = Some [] \<and> generatePlacementInsights data = Some [skills_insight]"
    if none: "\<forall>record \<in> set data. \<forall>key \<in> own_keys record. matches_no_role key"
  proof -
    have gates: "\<not> has_key is_cgpa_key data" "\<not> has_key is_internship_key data"
      "\<not> has_key is_academic_perf_key data" "\<not> has_key is_communication_key data"
      "\<not> has_key is_project_key data" "\<not> has_key is_iq_key data"
      "\<not> has_key is_extra_curricular_key data" "\<not> has_key is_salary_key data"
      "\<not> has_key is_gender_key data" "\<not> has_key is_grade_key data"
      using none by (auto simp: has_key_iff matches_no_role_def)
    have absent: "obj_get r name = None"
      if "r \<in> set data"
        and "name \<in> set [''Department'', ''Course'', ''Branch'', ''Company'', ''Employer'']"
      for r name
    proof -
      have "name \<notin> own_keys r"
        using none that by (auto simp: matches_no_role_def)
      then show ?thesis
        by (rule obj_get_absent)
    qed
    have "\<forall>record \<in> set data.
            js_or (js_or (obj_get record ''Department'') (obj_get record ''Course''))
              (obj_get record ''Branch'') = None"
      using absent by (simp add: js_or_def truthy_def)
    then have dep: "length (departments data) \<le> 1"
      unfolding departments_def by (rule remdups_constant)
    have "\<forall>record \<in> set data.
            js_or (obj_get record ''Company'') (obj_get record ''Employer'') = None"
      using absent by (simp add: js_or_def truthy_def)
    then have com: "companies data = []"
      by (simp add: companies_def)
    show ?thesis
      using assms gates dep com
      by (simp add: generateInsights_def generatePlacementInsights_def)
  qed
  moreover have "\<exists>gated. generatePlacementInsights data = Some (gated @ [skills_insight])"
  proof -
    have "generatePlacementInsights data =
          Some (((if length (departments data) > 1 then [department_insight data] else []) @
                 (if has_key is_salary_key data then [salary_insight] else []) @
                 (if has_key is_gender_key data then [gender_insight] else []) @
                 (if length (companies data) > 0 then [company_insight data] else []) @
                 (if has_key is_grade_key data then [grade_insight] else [])) @
                [skills_insight])"
      using assms by (simp add: generatePlacementInsights_def)
    then show ?thesis
      by blast
  qed
  ultimately show ?thesis
    using generateInsights_idents [OF assms] by blast
qed

theorem insights_without_roles_witness:
  "parseCSV ''Notes\<newline>hello\<newline>'' \<noteq> [] \<and>
   list_all (\<lambda>record. list_all matches_no_role (map fst record)) (parseCSV ''Notes\<newline>hello\<newline>'') \<and>
   generateInsights (parseCSV ''Notes\<newline>hello\<newline>'') = Some [] \<and>
   generatePlacementInsights (parseCSV ''Notes\<newline>hello\<newline>'') = Some [skills_insight]"
proof -
  let ?d = "parseCSV ''Notes\<newline>hello\<newline>''"
  have d: "?d = [[(''Notes'', ''hello'')]]"
    by code_simp
  have some: "?d \<noteq> []"
    by (simp add: d)
  have no: "matches_no_role ''Notes''"
    by code_simp
  then have none: "\<forall>record \<in> set ?d. \<forall>key \<in> own_keys record. matches_no_role key"
    by (simp add: d own_keys_def)
  have "generateInsights ?d = Some [] \<and> generatePlacementInsights ?d = Some [skills_insight]"
    using insights_without_roles [OF some] none by blast
  then show ?thesis
    using some no by (simp add: d)
qed

lemma zero_by_zero: "js_div (Num 0) (js_of_nat 0) = NaN"
  by (simp add: js_of_nat_def)

lemma avgCGPA_none_placed:
  assumes "\<forall>record \<in> set data. \<not> insight_placed record"
  shows "avgCGPA data = NaN"
proof -
  have "filter insight_placed data = []"
    using assms by simp
  then show ?thesis
    by (simp add: avgCGPA_def zero_by_zero)
qed

lemma internship_rate_none:
  assumes "\<forall>record \<in> set data. \<not> insight_internship record"
  shows "internshipPlacementRate data = NaN"
proof -
  have "filter insight_internship data = []"
    using assms by simp
  then show ?thesis
    by (simp add: internshipPlacementRate_def js_of_nat_def)
qed

text \<open>
  Claim C10.  For a Dataset with a record, when some key contains \<^verbatim>\<open>cgpa\<close> or \<^verbatim>\<open>gpa\<close> and
  no record's placement value is \<^verbatim>\<open>placed\<close> or \<^verbatim>\<open>1\<close>, the generator lists the entry
  "CGPA Impact on Placement Success" first, and the average printed into its description is
  0/0, that is NaN.  When some key contains \<^verbatim>\<open>internship\<close> and no record passes the
  internship test, the entry "Internship Experience Advantage" is listed and the rate
  printed into its description is NaN.
\<close>

theorem insight_nan:
  assumes "data \<noteq> []"
  shows "(has_key is_cgpa_key data \<and> (\<forall>record \<in> set data. \<not> insight_placed record) \<longrightarrow>
            avgCGPA data = NaN \<and>
            (\<exists>rest. generateInsights data = Some (cgpa_insight data # rest)) \<and>
            title (cgpa_insight data) = ''CGPA Impact on Placement Success'' \<and>
            description (cgpa_insight data) ! 1 = Fixed 1 NaN) \<and>
         (has_key is_internship_key data \<and> (\<forall>record \<in> set data. \<not> insight_internship record) \<longrightarrow>
            internshipPlacementRate data = NaN \<and>
            (\<exists>before rest.
               generateInsights data = Some (before @ internship_insight data # rest)) \<and>
            title (internship_insight data) = ''Internship Experience Advantage'' \<and>
            description (internship_insight data) ! 1 = Fixed 0 NaN)"
proof -
  have first: "\<exists>rest. generateInsights data = Some (cgpa_insight data # rest)"
    if "has_key is_cgpa_key data"
    using assms that by (simp add: generateInsights_def)
  have second: "\<exists>before rest. generateInsights data = Some (before @ internship_insight data # rest)"
    if "has_key is_internship_key data"
  proof -
    have "generateInsights data =
          Some ((if has_key is_cgpa_key data then [cgpa_insight data] else []) @
                internship_insight data #
                ((if has_key is_academic_perf_key data then [performance_insight data] else []) @
                 (if has_key is_communication_key data then [communication_insight] else []) @
                 (if has_key is_project_key data then [projects_insight] else []) @
                 (if has_key is_iq_key data then [iq_insight] else []) @
                 (if has_key is_extra_curricular_key data then [extra_curricular_insight] else [])))"
      using assms that by (simp add: generateInsights_def)
    then show ?thesis
      by blast
  qed
  have "description (cgpa_insight data) ! 1 = Fixed 1 NaN \<and> avgCGPA data = NaN"
    if "\<forall>record \<in> set data. \<not> insight_placed record"
    using avgCGPA_none_placed [OF that] by (simp add: cgpa_insight_def)
  moreover have "description (internship_insight data) ! 1 = Fixed 0 NaN \<and>
                 internshipPlacementRate data = NaN"
    if "\<forall>record \<in> set data. \<not> insight_internship record"
    using internship_rate_none [OF that] by (simp add: internship_insight_def)
  moreover have "title (cgpa_insight data) = ''CGPA Impact on Placement Success''"
    and "title (internship_insight data) = ''Internship Experience Advantage''"
    by (simp_all add: cgpa_insight_def internship_insight_def)
  ultimately show ?thesis
    using first second by blast
qed

theorem insight_nan_witness:
  "parseCSV ''CGPA,Internship\<newline>8.5,No\<newline>'' \<noteq> [] \<and>
   has_key is_cgpa_key (parseCSV ''CGPA,Internship\<newline>8.5,No\<newline>'') \<and>
   has_key is_internship_key (parseCSV ''CGPA,Internship\<newline>8.5,No\<newline>'') \<and>
   list_all (\<lambda>record. \<not> insight_placed record \<and> \<not> insight_internship record)
     (parseCSV ''CGPA,Internship\<newline>8.5,No\<newline>'') \<and>
   avgCGPA (parseCSV ''CGPA,Internship\<newline>8.5,No\<newline>'') = NaN \<and>
   internshipPlacementRate (parseCSV ''CGPA,Internship\<newline>8.5,No\<newline>'') = NaN"
proof -
  let ?d = "parseCSV ''CGPA,Internship\<newline>8.5,No\<newline>''"
  have d: "?d = [[(''CGPA'', ''8.5''), (''Internship'', ''No'')]]"
    by code_simp
  have some: "?d \<noteq> []"
    by (simp add: d)
  have cg: "has_key is_cgpa_key ?d" and it: "has_key is_internship_key ?d"
    unfolding d by code_simp+
  have parse_no: "parseFloat ''No'' = NaN"
    by (simp add: parseFloat_eval)
  have np: "\<forall>record \<in> set ?d. \<not> insight_placed record"
    unfolding d by (simp add: insight_placed_def js_or_def obj_get_def truthy_def)
  have ni: "\<forall>record \<in> set ?d. \<not> insight_internship record"
    unfolding d
    by (simp add: insight_internship_def js_or_def obj_get_def truthy_def parse_no
          toLowerCase_def lower_char_def)
  have "avgCGPA ?d = NaN" and "internshipPlacementRate ?d = NaN"
    using insight_nan [OF some] cg it np ni by blast+
  then show ?thesis
    using some cg it np ni by (simp add: list_all_iff)
qed

section \<open>Properties of the distinct company count\<close>

lemma topCompanies_fold:
  "topCompanies (placement_metrics data) =
   length (foldl (\<lambda>acc student. company_loop acc student companyFields) [] data)"
  by (simp add: placement_metrics_def Let_def)

lemma set_add_distinct: "distinct xs \<Longrightarrow> distinct (set_add xs x)"
  by (simp add: set_add_def)

lemma set_add_set: "set (set_add xs x) = insert x (set xs)"
  by (auto simp: set_add_def)

lemma company_loop_single:
  assumes "\<forall>field \<in> set [''Employer'', ''Organization'', ''Company_Name'']. obj_get student field = None"
  shows "company_loop acc student companyFields =
         (case obj_get student ''Company'' of
            None \<Rightarrow> acc
          | Some v \<Rightarrow>
              if js_trim v \<noteq> [] \<and> toLowerCase v \<noteq> ''not placed''
              then set_add acc (js_trim v) else acc)"
proof -
  have "js_trim v \<noteq> [] \<Longrightarrow> v \<noteq> []" for v
    by (auto simp: js_trim_def)
  then show ?thesis
    using assms by (auto simp: companyFields_def split: option.splits)
qed

lemma company_fold_single:
  assumes "\<forall>student \<in> set data.
             \<forall>field \<in> set [''Employer'', ''Organization'', ''Company_Name'']. obj_get student field = None"
    and "distinct acc"
  shows "distinct (foldl (\<lambda>acc student. company_loop acc student companyFields) acc data) \<and>
         set (foldl (\<lambda>acc student. company_loop acc student companyFields) acc data) =
         set acc \<union>
         {js_trim v | v. (\<exists>student \<in> set data. obj_get student ''Company'' = Some v) \<and>
                        js_trim v \<noteq> [] \<and> toLowerCase v \<noteq> ''not placed''}"
  using assms
proof (induction data arbitrary: acc)
  case Nil
  then show ?case by simp
next
  case (Cons student data)
  let ?acc = "company_loop acc student companyFields"
  have single: "?acc =
         (case obj_get student ''Company'' of
            None \<Rightarrow> acc
          | Some v \<Rightarrow>
              if js_trim v \<noteq> [] \<and> toLowerCase v \<noteq> ''not placed''
              then set_add acc (js_trim v) else acc)"
    using Cons.prems(1) by (intro company_loop_single) simp
  have d: "distinct ?acc"
    using Cons.prems(2) by (simp add: single set_add_distinct split: option.splits)
  have s: "set ?acc = set acc \<union>
         {js_trim v | v. obj_get student ''Company'' = Some v \<and>
                        js_trim v \<noteq> [] \<and> toLowerCase v \<noteq> ''not placed''}"
    by (auto simp: single set_add_set split: option.splits)
  have rest: "\<forall>student \<in> set data.
             \<forall>field \<in> set [''Employer'', ''Organization'', ''Company_Name'']. obj_get student field = None"
    using Cons.prems(1) by simp
  show ?case
    using Cons.IH [OF rest d] by (auto simp: s)
qed

lemma topCompanies_single_column:
  assumes "\<forall>student \<in> set data.
             \<forall>field \<in> set [''Employer'', ''Organization'', ''Company_Name'']. obj_get student field = None"
  shows "topCompanies (placement_metrics data) =
         card {js_trim v | v. (\<exists>student \<in> set data. obj_get student ''Company'' = Some v) \<and>
                             js_trim v \<noteq> [] \<and> toLowerCase v \<noteq> ''not placed''}"
  using company_fold_single [OF assms, of "[]"]
  by (simp add: topCompanies_fold distinct_card [symmetric])

lemma column_values:
  "set (concat (map (\<lambda>student.
          case obj_get student field of None \<Rightarrow> [] | Some v \<Rightarrow> [v]) data)) =
   {v. \<exists>student \<in> set data. obj_get student field = Some v}"
proof (induction data)
  case Nil
  then show ?case by simp
next
  case (Cons student data)
  then show ?case
    by (cases "obj_get student field") auto
qed

lemma spec_company_count_card:
  "spec_company_count field data =
   card {js_trim v | v. (\<exists>student \<in> set data. obj_get student field = Some v) \<and>
                       js_trim v \<noteq> [] \<and> toLowerCase (js_trim v) \<noteq> ''not placed''}"
proof -
  have "set (filter (\<lambda>c. c \<noteq> [] \<and> toLowerCase c \<noteq> ''not placed'')
          (map js_trim (concat (map (\<lambda>student.
             case obj_get student field of None \<Rightarrow> [] | Some v \<Rightarrow> [v]) data)))) =
        {js_trim v | v. (\<exists>student \<in> set data. obj_get student field = Some v) \<and>
                       js_trim v \<noteq> [] \<and> toLowerCase (js_trim v) \<noteq> ''not placed''}"
    unfolding set_filter set_map column_values by auto
  then show ?thesis
    by (simp add: spec_company_count_def length_remdups_card_conv)
qed

lemma company_count_agrees:
  assumes "\<forall>student \<in> set data.
             \<forall>field \<in> set [''Employer'', ''Organization'', ''Company_Name'']. obj_get student field = None"
    and "\<forall>student \<in> set data. \<forall>v. obj_get student ''Company'' = Some v \<longrightarrow> js_trim v = v"
  shows "topCompanies (placement_metrics data) = spec_company_count ''Company'' data"
proof -
  have "{js_trim v | v. (\<exists>student \<in> set data. obj_get student ''Company'' = Some v) \<and>
                       js_trim v \<noteq> [] \<and> toLowerCase v \<noteq> ''not placed''} =
        {js_trim v | v. (\<exists>student \<in> set data. obj_get student ''Company'' = Some v) \<and>
                       js_trim v \<noteq> [] \<and> toLowerCase (js_trim v) \<noteq> ''not placed''}"
    using assms(2) by (intro Collect_cong) metis
  then show ?thesis
    by (simp add: topCompanies_single_column [OF assms(1)] spec_company_count_card)
qed

lemma scenario_C_parse:
  "parseCSV ''Company\<newline>Google\<newline>Google\<newline>Microsoft\<newline>Not Placed\<newline>'' =
   [[(''Company'', ''Google'')], [(''Company'', ''Google'')], [(''Company'', ''Microsoft'')],
    [(''Company'', ''Not Placed'')]]"
  by code_simp

lemma scenario_C_count:
  "topCompanies (placement_metrics
     (parseCSV ''Company\<newline>Google\<newline>Google\<newline>Microsoft\<newline>Not Placed\<newline>'')) = 2"
  unfolding topCompanies_fold scenario_C_parse by code_simp

lemma padded_parse:
  "parseCSV (''Company\<newline>'' @ [CHR 0x22] @ '' Not Placed '' @ [CHR 0x22] @ ''\<newline>'') =
   [[(''Company'', '' Not Placed '')]]"
  by code_simp

text \<open>
  Claim C5 at a padded sentinel.  The cell \<^verbatim>\<open>" Not Placed "\<close>, quoted with a blank on
  either side, is stored with its blanks.  Its trimmed value is the sentinel, which the
  count as specified leaves out (the count is 0); the code compares the sentinel before
  trimming and counts the value (the count is 1).
\<close>

theorem padded_sentinel_counted:
  "parseCSV (''Company\<newline>'' @ [CHR 0x22] @ '' Not Placed '' @ [CHR 0x22] @ ''\<newline>'') =
     [[(''Company'', '' Not Placed '')]] \<and>
   toLowerCase (js_trim '' Not Placed '') = ''not placed'' \<and>
   spec_company_count ''Company'' [[(''Company'', '' Not Placed '')]] = 0 \<and>
   topCompanies (placement_metrics [[(''Company'', '' Not Placed '')]]) = 1"
proof -
  have "toLowerCase (js_trim '' Not Placed '') = ''not placed''"
    by code_simp
  moreover have "spec_company_count ''Company'' [[(''Company'', '' Not Placed '')]] = 0"
    by code_simp
  moreover have "topCompanies (placement_metrics [[(''Company'', '' Not Placed '')]]) = 1"
    unfolding topCompanies_fold by code_simp
  ultimately show ?thesis
    using padded_parse by simp
qed

end
